theory Spec2Isabelle
  imports Main "HOL-Library.Word"
begin

section \<open>Machine types and constants of the graphics API\<close>

text \<open>
  The source is \<^verbatim>\<open>Source/Implementation/core/VertexBuffer.inl\<close>. It is written against
  the OpenGL C API. \<^verbatim>\<open>GLuint\<close> and \<^verbatim>\<open>GLenum\<close> are unsigned 32-bit integers, \<^verbatim>\<open>GLboolean\<close>
  is an unsigned byte. \<^verbatim>\<open>GLint\<close> and \<^verbatim>\<open>GLsizei\<close> are signed 32-bit integers; the source
  only compares them and converts them to and from \<^verbatim>\<open>GLuint\<close>, so they are integers
  here, read from a word with \<open>sint\<close> and converted back with \<open>word_of_int\<close>.
  A \<^verbatim>\<open>const GLvoid*\<close> offset is the natural number of its address.
\<close>

type_synonym GLuint = "32 word"
type_synonym GLenum = "32 word"
type_synonym GLboolean = "8 word"
type_synonym GLint = int
type_synonym GLsizei = int
type_synonym GLvoid_ptr = nat

definition GL_FALSE :: GLboolean where "GL_FALSE = 0"
definition GL_TRUE :: GLboolean where "GL_TRUE = 1"

definition GL_NO_ERROR :: GLenum where "GL_NO_ERROR = 0"
definition GL_INVALID_OPERATION :: GLenum where "GL_INVALID_OPERATION = 0x0502"
definition GL_OUT_OF_MEMORY :: GLenum where "GL_OUT_OF_MEMORY = 0x0505"

definition GL_BYTE :: GLenum where "GL_BYTE = 0x1400"
definition GL_UNSIGNED_BYTE :: GLenum where "GL_UNSIGNED_BYTE = 0x1401"
definition GL_SHORT :: GLenum where "GL_SHORT = 0x1402"
definition GL_UNSIGNED_SHORT :: GLenum where "GL_UNSIGNED_SHORT = 0x1403"
definition GL_INT :: GLenum where "GL_INT = 0x1404"
definition GL_UNSIGNED_INT :: GLenum where "GL_UNSIGNED_INT = 0x1405"
definition GL_FLOAT :: GLenum where "GL_FLOAT = 0x1406"
definition GL_DOUBLE :: GLenum where "GL_DOUBLE = 0x140A"
definition GL_HALF_FLOAT :: GLenum where "GL_HALF_FLOAT = 0x140B"
definition GL_FIXED :: GLenum where "GL_FIXED = 0x140C"
definition GL_UNSIGNED_INT_2_10_10_10_REV :: GLenum where
  "GL_UNSIGNED_INT_2_10_10_10_REV = 0x8368"
definition GL_UNSIGNED_INT_10F_11F_11F_REV :: GLenum where
  "GL_UNSIGNED_INT_10F_11F_11F_REV = 0x8C3B"
definition GL_INT_2_10_10_10_REV :: GLenum where
  "GL_INT_2_10_10_10_REV = 0x8D9F"

text \<open>
  \<^verbatim>\<open>GL_BGRA\<close> and \<^verbatim>\<open>GL_MAX_VERTEX_ATTRIBS\<close> are compared with a \<^verbatim>\<open>GLint\<close> in the source
  (\<^verbatim>\<open>size == GL_BGRA\<close>, \<^verbatim>\<open>location < GL_MAX_VERTEX_ATTRIBS\<close>): the macros' values as integers.
\<close>

definition GL_BGRA :: GLint where "GL_BGRA = 0x80E1"
definition GL_MAX_VERTEX_ATTRIBS :: GLint where "GL_MAX_VERTEX_ATTRIBS = 0x8869"

section \<open>Exceptions\<close>

text \<open>
  The exceptions the source throws. \<^verbatim>\<open>AttributeNotFoundException\<close> carries the name of
  the attribute that was looked up (the source builds its message from it).
\<close>

datatype exception =
    ResourceException
  | BindException
  | AttributeNotFoundException string
  | InvalidAttributeSpec

text \<open>
  Modelled from the spec: the macro \<^verbatim>\<open>dynamic_assert\<close> comes from \<^verbatim>\<open>dynamic_assert.hpp\<close>,
  which is not among the sources. The specification (4.1, 7) says that a violated
  check fails immediately, at the call that detects it, with the typed failure
  \<^verbatim>\<open>InvalidAttributeSpec\<close>. \<open>raise\<close> is how the enclosing function returns an exception,
  \<open>k\<close> is the rest of its body.
\<close>

definition dynamic_assert :: "bool \<Rightarrow> (exception \<Rightarrow> 'r) \<Rightarrow> 'r \<Rightarrow> 'r" where
  "dynamic_assert cond raise k = (if cond then k else raise InvalidAttributeSpec)"

section \<open>The GPU context\<close>

text \<open>
  The OpenGL context is global mutable state outside the repository; the source reaches
  it through the calls below. It is an explicit value here, passed to and returned by
  every function that makes such a call. The two choices the driver makes are fields
  of the context: \<open>gen_name\<close> is the name \<^verbatim>\<open>glGenBuffers\<close> hands out, given the names in
  use, and \<open>out_of_memory\<close> says whether a data store of that many bytes cannot be
  allocated.
\<close>

datatype vertex_attrib_format =
    VertexAttribPointer GLint GLenum GLboolean GLsizei GLvoid_ptr
  | VertexAttribIPointer GLint GLenum GLsizei GLvoid_ptr
  | VertexAttribLPointer GLint GLenum GLsizei GLvoid_ptr

record gl_context =
  buffer_names :: "GLuint list"
  gen_name :: "GLuint list \<Rightarrow> GLuint"
  out_of_memory :: "nat \<Rightarrow> bool"
  buffer_store :: "GLuint \<rightharpoonup> nat \<times> GLenum"
  array_buffer_binding :: GLuint
  current_program :: GLuint
  attrib_table :: "GLuint \<Rightarrow> string \<rightharpoonup> nat"
  enabled_attribs :: "GLuint set"
  attrib_formats :: "GLuint \<rightharpoonup> vertex_attrib_format"
  error_flag :: GLenum

text \<open>\<^verbatim>\<open>glGenBuffers(1, &h)\<close>: one name, marked as in use.\<close>

definition glGenBuffers :: "gl_context \<Rightarrow> GLuint \<times> gl_context" where
  "glGenBuffers ctx =
     (let h = gen_name ctx (buffer_names ctx)
      in (h, ctx\<lparr>buffer_names := h # buffer_names ctx\<rparr>))"

text \<open>
  \<^verbatim>\<open>glDeleteBuffers(1, &h)\<close>: 0 and names that are not in use are silently ignored; the
  name becomes unused, its data store is freed, and a binding to it reverts to 0.
\<close>

definition glDeleteBuffers :: "GLuint \<Rightarrow> gl_context \<Rightarrow> gl_context" where
  "glDeleteBuffers h ctx =
     (if h = 0 \<or> h \<notin> set (buffer_names ctx) then ctx
      else ctx\<lparr>buffer_names := removeAll h (buffer_names ctx),
               buffer_store := (buffer_store ctx)(h := None),
               array_buffer_binding :=
                 (if array_buffer_binding ctx = h then 0 else array_buffer_binding ctx)\<rparr>)"

text \<open>\<^verbatim>\<open>glBindBuffer(GL_ARRAY_BUFFER, h)\<close>.\<close>

definition glBindBuffer :: "GLuint \<Rightarrow> gl_context \<Rightarrow> gl_context" where
  "glBindBuffer h ctx = ctx\<lparr>array_buffer_binding := h\<rparr>"

text \<open>
  \<^verbatim>\<open>glGetIntegerv(GL_ARRAY_BUFFER_BINDING, &v)\<close> and \<^verbatim>\<open>glGetIntegerv(GL_CURRENT_PROGRAM, &v)\<close>
  write the unsigned name into a \<^verbatim>\<open>GLint\<close>.
\<close>

definition glGetIntegerv_ARRAY_BUFFER_BINDING :: "gl_context \<Rightarrow> GLint" where
  "glGetIntegerv_ARRAY_BUFFER_BINDING ctx = sint (array_buffer_binding ctx)"

definition glGetIntegerv_CURRENT_PROGRAM :: "gl_context \<Rightarrow> GLint" where
  "glGetIntegerv_CURRENT_PROGRAM ctx = sint (current_program ctx)"

text \<open>
  An error is recorded only while the flag is \<^verbatim>\<open>GL_NO_ERROR\<close>; \<^verbatim>\<open>glGetError\<close> returns the
  flag and clears it.
\<close>

definition record_error :: "GLenum \<Rightarrow> gl_context \<Rightarrow> gl_context" where
  "record_error e ctx = (if error_flag ctx = GL_NO_ERROR then ctx\<lparr>error_flag := e\<rparr> else ctx)"

definition glGetError :: "gl_context \<Rightarrow> GLenum \<times> gl_context" where
  "glGetError ctx = (error_flag ctx, ctx\<lparr>error_flag := GL_NO_ERROR\<rparr>)"

text \<open>
  \<^verbatim>\<open>glBufferData(GL_ARRAY_BUFFER, n, p, usage)\<close>: \<^verbatim>\<open>GL_INVALID_OPERATION\<close> when the reserved
  name 0 is bound, \<^verbatim>\<open>GL_OUT_OF_MEMORY\<close> when the store cannot be created; otherwise the
  bound buffer gets a new data store. The store is its size in bytes and its usage;
  the bytes that the pointer \<open>p\<close> refers to are not part of the model.
\<close>

definition glBufferData :: "nat \<Rightarrow> GLenum \<Rightarrow> gl_context \<Rightarrow> gl_context" where
  "glBufferData n usage ctx =
     (if array_buffer_binding ctx = 0 then record_error GL_INVALID_OPERATION ctx
      else if out_of_memory ctx n then record_error GL_OUT_OF_MEMORY ctx
      else ctx\<lparr>buffer_store := (buffer_store ctx)(array_buffer_binding ctx \<mapsto> (n, usage))\<rparr>)"

text \<open>\<^verbatim>\<open>glGetAttribLocation(program, name)\<close>: the slot of the attribute, or -1.\<close>

definition glGetAttribLocation :: "gl_context \<Rightarrow> GLuint \<Rightarrow> string \<Rightarrow> GLint" where
  "glGetAttribLocation ctx program name =
     (case attrib_table ctx program name of None \<Rightarrow> - 1 | Some l \<Rightarrow> int l)"

definition glEnableVertexAttribArray :: "GLuint \<Rightarrow> gl_context \<Rightarrow> gl_context" where
  "glEnableVertexAttribArray index ctx =
     ctx\<lparr>enabled_attribs := insert index (enabled_attribs ctx)\<rparr>"

text \<open>
  \<^verbatim>\<open>glVertexAttribPointer\<close>, \<^verbatim>\<open>glVertexAttribIPointer\<close> and \<^verbatim>\<open>glVertexAttribLPointer\<close> record
  the format of a slot; the constructor of \<open>vertex_attrib_format\<close> says which was called.
\<close>

definition glVertexAttribFormat :: "GLuint \<Rightarrow> vertex_attrib_format \<Rightarrow> gl_context \<Rightarrow> gl_context" where
  "glVertexAttribFormat index fmt ctx = ctx\<lparr>attrib_formats := (attrib_formats ctx)(index \<mapsto> fmt)\<rparr>"

section \<open>Attribute descriptors\<close>

text \<open>\<^verbatim>\<open>detail::getAttribLocation\<close>.\<close>

definition getAttribLocation :: "gl_context \<Rightarrow> GLuint \<Rightarrow> string \<Rightarrow> exception + GLint" where
  "getAttribLocation ctx handle name =
     dynamic_assert (handle \<noteq> 0) Inl
       (let rv = glGetAttribLocation ctx handle name
        in if rv = - 1 then Inl (AttributeNotFoundException name) else Inr rv)"

text \<open>The fields of \<^verbatim>\<open>detail::AttributePointerBase\<close>.\<close>

record AttributePointerBase =
  ap_name :: string
  ap_size :: GLint
  ap_type :: GLenum
  ap_stride :: GLsizei
  ap_offset :: GLvoid_ptr
  ap_normalized :: GLboolean

text \<open>
  The constructor of \<^verbatim>\<open>AttributePointerBase\<close>: error conditions (2), (4), (5), (6), (7)
  and (8) of the source, in its order.
\<close>

definition AttributePointerBase_ctor ::
  "string \<Rightarrow> GLint \<Rightarrow> GLenum \<Rightarrow> GLsizei \<Rightarrow> GLvoid_ptr \<Rightarrow> GLboolean \<Rightarrow> exception + AttributePointerBase" where
  "AttributePointerBase_ctor name size' type' stride offset normalized =
     dynamic_assert ((size' > 0 \<and> size' < 5) \<or> size' = GL_BGRA) Inl
    (dynamic_assert (stride \<ge> 0) Inl
    (dynamic_assert
       (size' \<noteq> GL_BGRA \<or>
        type' = GL_UNSIGNED_BYTE \<or>
        type' = GL_INT_2_10_10_10_REV \<or>
        type' = GL_UNSIGNED_INT_2_10_10_10_REV) Inl
    (dynamic_assert
       ((type' \<noteq> GL_INT_2_10_10_10_REV \<and> type' \<noteq> GL_UNSIGNED_INT_2_10_10_10_REV) \<or>
        size' = 4 \<or>
        size' = GL_BGRA) Inl
    (dynamic_assert
       (type' \<noteq> GL_UNSIGNED_INT_10F_11F_11F_REV \<or>
        size' = 3) Inl
    (dynamic_assert
       (size' \<noteq> GL_BGRA \<or>
        normalized = GL_TRUE) Inl
    (Inr \<lparr>ap_name = name, ap_size = size', ap_type = type', ap_stride = stride,
          ap_offset = offset, ap_normalized = normalized\<rparr>))))))"

text \<open>
  The three structs derived from the base, one per family of attribute; the constructor
  of the datatype is the dynamic type that \<^verbatim>\<open>postBind\<close> dispatches on.
\<close>

datatype attribute_pointer =
    AttributePointer AttributePointerBase
  | AttributeIPointer AttributePointerBase
  | AttributeLPointer AttributePointerBase

fun base :: "attribute_pointer \<Rightarrow> AttributePointerBase" where
  "base (AttributePointer b) = b"
| "base (AttributeIPointer b) = b"
| "base (AttributeLPointer b) = b"

text \<open>
  The derived constructors run the base constructor first (the integer and the double
  variant with its default \<^verbatim>\<open>normalized = GL_FALSE\<close>), then error condition (3).
\<close>

definition AttributePointer_ctor ::
  "string \<Rightarrow> GLint \<Rightarrow> GLenum \<Rightarrow> GLboolean \<Rightarrow> GLsizei \<Rightarrow> GLvoid_ptr \<Rightarrow> exception + attribute_pointer" where
  "AttributePointer_ctor name size' type' normalized stride offset =
     (case AttributePointerBase_ctor name size' type' stride offset normalized of
        Inl e \<Rightarrow> Inl e
      | Inr b \<Rightarrow>
          dynamic_assert
            (type' = GL_BYTE \<or>
             type' = GL_UNSIGNED_BYTE \<or>
             type' = GL_SHORT \<or>
             type' = GL_UNSIGNED_SHORT \<or>
             type' = GL_INT \<or>
             type' = GL_UNSIGNED_INT \<or>
             type' = GL_HALF_FLOAT \<or>
             type' = GL_FLOAT \<or>
             type' = GL_DOUBLE \<or>
             type' = GL_FIXED \<or>
             type' = GL_INT_2_10_10_10_REV \<or>
             type' = GL_UNSIGNED_INT_2_10_10_10_REV \<or>
             type' = GL_UNSIGNED_INT_10F_11F_11F_REV) Inl
            (Inr (AttributePointer b)))"

definition AttributeIPointer_ctor ::
  "string \<Rightarrow> GLint \<Rightarrow> GLenum \<Rightarrow> GLsizei \<Rightarrow> GLvoid_ptr \<Rightarrow> exception + attribute_pointer" where
  "AttributeIPointer_ctor name size' type' stride offset =
     (case AttributePointerBase_ctor name size' type' stride offset GL_FALSE of
        Inl e \<Rightarrow> Inl e
      | Inr b \<Rightarrow>
          dynamic_assert
            (type' = GL_BYTE \<or>
             type' = GL_UNSIGNED_BYTE \<or>
             type' = GL_SHORT \<or>
             type' = GL_UNSIGNED_SHORT \<or>
             type' = GL_INT \<or>
             type' = GL_UNSIGNED_INT) Inl
            (Inr (AttributeIPointer b)))"

definition AttributeLPointer_ctor ::
  "string \<Rightarrow> GLint \<Rightarrow> GLenum \<Rightarrow> GLsizei \<Rightarrow> GLvoid_ptr \<Rightarrow> exception + attribute_pointer" where
  "AttributeLPointer_ctor name size' type' stride offset =
     (case AttributePointerBase_ctor name size' type' stride offset GL_FALSE of
        Inl e \<Rightarrow> Inl e
      | Inr b \<Rightarrow>
          dynamic_assert (type' = GL_DOUBLE) Inl
            (Inr (AttributeLPointer b)))"

text \<open>\<^verbatim>\<open>postBind\<close>: the call each family makes for its slot.\<close>

fun postBind :: "attribute_pointer \<Rightarrow> GLint \<Rightarrow> gl_context \<Rightarrow> gl_context" where
  "postBind (AttributePointer b) index ctx =
     glVertexAttribFormat (word_of_int index)
       (VertexAttribPointer (ap_size b) (ap_type b) (ap_normalized b) (ap_stride b) (ap_offset b)) ctx"
| "postBind (AttributeIPointer b) index ctx =
     glVertexAttribFormat (word_of_int index)
       (VertexAttribIPointer (ap_size b) (ap_type b) (ap_stride b) (ap_offset b)) ctx"
| "postBind (AttributeLPointer b) index ctx =
     glVertexAttribFormat (word_of_int index)
       (VertexAttribLPointer (ap_size b) (ap_type b) (ap_stride b) (ap_offset b)) ctx"

text \<open>
  \<^verbatim>\<open>AttributePointerBase::bind\<close>. The result is the exception thrown, if any, and the
  context as the call leaves it.
\<close>

definition AttributePointerBase_bind ::
  "attribute_pointer \<Rightarrow> GLuint \<Rightarrow> gl_context \<Rightarrow> exception option \<times> gl_context" where
  "AttributePointerBase_bind a programHandle ctx =
     (case getAttribLocation ctx programHandle (ap_name (base a)) of
        Inl e \<Rightarrow> (Some e, ctx)
      | Inr location \<Rightarrow>
          dynamic_assert (location < GL_MAX_VERTEX_ATTRIBS) (\<lambda>e. (Some e, ctx))
            (None, postBind a location (glEnableVertexAttribArray (word_of_int location) ctx)))"

section \<open>The vertex buffer manager\<close>

text \<open>
  \<^verbatim>\<open>detail::VertexBufferBindHelper\<close>: the constructor reads the current binding into the
  \<^verbatim>\<open>GLint\<close> field \<^verbatim>\<open>preserved\<close> and binds the handle; the destructor binds \<^verbatim>\<open>preserved\<close>
  again. C++ runs the destructor when the scope of the helper is left, by a return or
  by an exception; the functions below call it on each of their exits.
\<close>

definition VertexBufferBindHelper_ctor :: "GLuint \<Rightarrow> gl_context \<Rightarrow> GLint \<times> gl_context" where
  "VertexBufferBindHelper_ctor handle ctx =
     (let preserved = glGetIntegerv_ARRAY_BUFFER_BINDING ctx
      in (preserved, glBindBuffer handle ctx))"

definition VertexBufferBindHelper_dtor :: "GLint \<Rightarrow> gl_context \<Rightarrow> gl_context" where
  "VertexBufferBindHelper_dtor preserved ctx = glBindBuffer (word_of_int preserved) ctx"

text \<open>
  The template arguments of \<^verbatim>\<open>VertexBufferImpl\<close> that the body uses: \<^verbatim>\<open>sizeof(T)\<close> and
  \<^verbatim>\<open>Usage\<close>. The fields of the class: the handle, the data and the attribute list.
\<close>

record template_args =
  sizeof_T :: nat
  Usage :: GLenum

record 'v VertexBufferImpl =
  handle :: GLuint
  data :: "'v list"
  attributes :: "attribute_pointer list"

text \<open>
  The constructor \<^verbatim>\<open>VertexBufferImpl(const std::vector<T>&)\<close>; the overload taking
  \<^verbatim>\<open>std::vector<T>&&\<close> has the same body. When it throws, no object exists and the
  destructor of \<^verbatim>\<open>VertexBufferImpl\<close> does not run: the result is the exception and the
  context.
\<close>

definition VertexBufferImpl_ctor ::
  "template_args \<Rightarrow> 'v list \<Rightarrow> gl_context \<Rightarrow> (exception + 'v VertexBufferImpl) \<times> gl_context" where
  "VertexBufferImpl_ctor targs data' ctx =
     (let (handle', c1) = glGenBuffers ctx;
          (helper, c2) = VertexBufferBindHelper_ctor handle' c1;
          c3 = glBufferData (sizeof_T targs * length data') (Usage targs) c2;
          (err, c4) = glGetError c3
      in if err = GL_OUT_OF_MEMORY
         then (Inl ResourceException, VertexBufferBindHelper_dtor helper c4)
         else (Inr \<lparr>handle = handle', data = data', attributes = []\<rparr>,
               VertexBufferBindHelper_dtor helper c4))"

text \<open>
  \<^verbatim>\<open>rebuffer\<close>. The result of a member function is the exception thrown, if any, the
  context and the object as the call leaves them.
\<close>

definition rebuffer ::
  "template_args \<Rightarrow> 'v list \<Rightarrow> gl_context \<Rightarrow> 'v VertexBufferImpl \<Rightarrow>
     exception option \<times> gl_context \<times> 'v VertexBufferImpl" where
  "rebuffer targs data' ctx this =
     (let (newHandle, c1) = glGenBuffers ctx;
          (helper, c2) = VertexBufferBindHelper_ctor newHandle c1;
          c3 = glBufferData (sizeof_T targs * length data') (Usage targs) c2;
          (err, c4) = glGetError c3
      in if err = GL_OUT_OF_MEMORY
         then (let c5 = glDeleteBuffers newHandle c4
               in (Some ResourceException, VertexBufferBindHelper_dtor helper c5, this))
         else (let this1 = this\<lparr>data := data'\<rparr>;
                   c5 = glDeleteBuffers (handle this1) c4;
                   this2 = this1\<lparr>handle := newHandle\<rparr>
               in (None, VertexBufferBindHelper_dtor helper c5, this2)))"

text \<open>
  The move constructor. A moved-from \<^verbatim>\<open>std::vector\<close> and \<^verbatim>\<open>std::list\<close> are empty. The
  result is the new object and the moved-from one.
\<close>

definition VertexBufferImpl_move_ctor ::
  "'v VertexBufferImpl \<Rightarrow> 'v VertexBufferImpl \<times> 'v VertexBufferImpl" where
  "VertexBufferImpl_move_ctor rhs =
     (\<lparr>handle = handle rhs, data = data rhs, attributes = attributes rhs\<rparr>,
      \<lparr>handle = 0, data = [], attributes = []\<rparr>)"

text \<open>
  \<^verbatim>\<open>setVertexData(const std::vector<T>&)\<close>; the overload taking \<^verbatim>\<open>std::vector<T>&&\<close> has
  the same body.
\<close>

definition setVertexData ::
  "template_args \<Rightarrow> 'v list \<Rightarrow> gl_context \<Rightarrow> 'v VertexBufferImpl \<Rightarrow>
     exception option \<times> gl_context \<times> 'v VertexBufferImpl" where
  "setVertexData targs data' ctx this =
     (let bound = glGetIntegerv_ARRAY_BUFFER_BINDING ctx
      in if handle this = word_of_int bound
         then (Some BindException, ctx, this)
         else rebuffer targs data' ctx this)"

text \<open>
  \<^verbatim>\<open>addAttributePointer\<close>, \<^verbatim>\<open>addAttributeIPointer\<close> and \<^verbatim>\<open>addAttributeLPointer\<close>: the
  descriptor is constructed first, and appended when its constructor returns. They
  make no call to the GPU context.
\<close>

definition push_back ::
  "exception + attribute_pointer \<Rightarrow> 'v VertexBufferImpl \<Rightarrow> exception option \<times> 'v VertexBufferImpl" where
  "push_back r this =
     (case r of
        Inl e \<Rightarrow> (Some e, this)
      | Inr a \<Rightarrow> (None, this\<lparr>attributes := attributes this @ [a]\<rparr>))"

definition addAttributePointer ::
  "string \<Rightarrow> GLint \<Rightarrow> GLenum \<Rightarrow> GLboolean \<Rightarrow> GLsizei \<Rightarrow> GLvoid_ptr \<Rightarrow> 'v VertexBufferImpl \<Rightarrow>
     exception option \<times> 'v VertexBufferImpl" where
  "addAttributePointer name size' type' normalized stride offset this =
     push_back (AttributePointer_ctor name size' type' normalized stride offset) this"

definition addAttributeIPointer ::
  "string \<Rightarrow> GLint \<Rightarrow> GLenum \<Rightarrow> GLsizei \<Rightarrow> GLvoid_ptr \<Rightarrow> 'v VertexBufferImpl \<Rightarrow>
     exception option \<times> 'v VertexBufferImpl" where
  "addAttributeIPointer name size' type' stride offset this =
     push_back (AttributeIPointer_ctor name size' type' stride offset) this"

definition addAttributeLPointer ::
  "string \<Rightarrow> GLint \<Rightarrow> GLsizei \<Rightarrow> GLvoid_ptr \<Rightarrow> 'v VertexBufferImpl \<Rightarrow>
     exception option \<times> 'v VertexBufferImpl" where
  "addAttributeLPointer name size' stride offset this =
     push_back (AttributeLPointer_ctor name size' GL_DOUBLE stride offset) this"

text \<open>
  \<^verbatim>\<open>bind\<close>: the loop over the attribute list stops at the first exception.
\<close>

fun bind_attributes ::
  "attribute_pointer list \<Rightarrow> GLuint \<Rightarrow> gl_context \<Rightarrow> exception option \<times> gl_context" where
  "bind_attributes [] programHandle ctx = (None, ctx)"
| "bind_attributes (ptr # ptrs) programHandle ctx =
     (case AttributePointerBase_bind ptr programHandle ctx of
        (Some e, ctx') \<Rightarrow> (Some e, ctx')
      | (None, ctx') \<Rightarrow> bind_attributes ptrs programHandle ctx')"

definition bind :: "gl_context \<Rightarrow> 'v VertexBufferImpl \<Rightarrow> exception option \<times> gl_context" where
  "bind ctx this =
     (let programHandle = glGetIntegerv_CURRENT_PROGRAM ctx
      in if programHandle = 0
         then (Some BindException, ctx)
         else bind_attributes (attributes this) (word_of_int programHandle)
                (glBindBuffer (handle this) ctx))"

text \<open>\<^verbatim>\<open>resetAttributes\<close>: it makes no call to the GPU context.\<close>

definition resetAttributes :: "'v VertexBufferImpl \<Rightarrow> 'v VertexBufferImpl" where
  "resetAttributes this = this\<lparr>attributes := []\<rparr>"

text \<open>The destructor.\<close>

definition VertexBufferImpl_dtor :: "'v VertexBufferImpl \<Rightarrow> gl_context \<Rightarrow> gl_context" where
  "VertexBufferImpl_dtor this ctx = glDeleteBuffers (handle this) ctx"

section \<open>Predicates of the properties\<close>

text \<open>
  The contract of \<^verbatim>\<open>glGenBuffers\<close>: the name it returns is not 0 and was not in use
  immediately before the call.
\<close>

definition fresh_name :: "gl_context \<Rightarrow> bool" where
  "fresh_name ctx =
     (gen_name ctx (buffer_names ctx) \<noteq> 0 \<and>
      gen_name ctx (buffer_names ctx) \<notin> set (buffer_names ctx))"

text \<open>
  The rules of the specification (4.1) for an attribute registration, in its words:
  the component count is 1, 2, 3, 4 or the packed-BGRA marker; the stride is not
  negative; a BGRA component count requires one of three packed data types and
  \<^verbatim>\<open>normalized = true\<close>; the two packed 10-10-10-2 types require component count 4 or
  BGRA; the packed 11-11-10 float type requires component count 3. The integer variant
  restricts the type to the exact-integer types. This definition follows the
  specification, not the source.
\<close>

definition spec_attribute_rules :: "GLint \<Rightarrow> GLenum \<Rightarrow> GLsizei \<Rightarrow> GLboolean \<Rightarrow> bool" where
  "spec_attribute_rules size' type' stride normalized =
     ((size' = 1 \<or> size' = 2 \<or> size' = 3 \<or> size' = 4 \<or> size' = GL_BGRA) \<and>
      0 \<le> stride \<and>
      (size' = GL_BGRA \<longrightarrow>
         (type' = GL_UNSIGNED_BYTE \<or> type' = GL_INT_2_10_10_10_REV \<or>
          type' = GL_UNSIGNED_INT_2_10_10_10_REV) \<and> normalized = GL_TRUE) \<and>
      (type' = GL_INT_2_10_10_10_REV \<or> type' = GL_UNSIGNED_INT_2_10_10_10_REV \<longrightarrow>
         size' = 4 \<or> size' = GL_BGRA) \<and>
      (type' = GL_UNSIGNED_INT_10F_11F_11F_REV \<longrightarrow> size' = 3))"

definition spec_integer_types :: "GLenum set" where
  "spec_integer_types =
     {GL_BYTE, GL_UNSIGNED_BYTE, GL_SHORT, GL_UNSIGNED_SHORT, GL_INT, GL_UNSIGNED_INT}"

text \<open>
  The thirteen types that error condition (3) of \<^verbatim>\<open>AttributePointer\<close> accepts; the rules
  of the specification do not list them.
\<close>

definition float_family_types :: "GLenum set" where
  "float_family_types =
     {GL_BYTE, GL_UNSIGNED_BYTE, GL_SHORT, GL_UNSIGNED_SHORT, GL_INT, GL_UNSIGNED_INT,
      GL_HALF_FLOAT, GL_FLOAT, GL_DOUBLE, GL_FIXED, GL_INT_2_10_10_10_REV,
      GL_UNSIGNED_INT_2_10_10_10_REV, GL_UNSIGNED_INT_10F_11F_11F_REV}"

text \<open>
  The current program has no attribute of the descriptor's name; and the contract of
  \<^verbatim>\<open>glGetAttribLocation\<close> that the source asserts after each lookup: a slot it returns is
  below \<^verbatim>\<open>GL_MAX_VERTEX_ATTRIBS\<close>.
\<close>

definition lacks_attribute :: "gl_context \<Rightarrow> attribute_pointer \<Rightarrow> bool" where
  "lacks_attribute ctx a =
     (attrib_table ctx (current_program ctx) (ap_name (base a)) = None)"

definition locations_in_range :: "gl_context \<Rightarrow> 'v VertexBufferImpl \<Rightarrow> bool" where
  "locations_in_range ctx this =
     list_all
       (\<lambda>a. case attrib_table ctx (current_program ctx) (ap_name (base a)) of
               None \<Rightarrow> True
             | Some l \<Rightarrow> int l < GL_MAX_VERTEX_ATTRIBS)
       (attributes this)"

text \<open>
  Ownership of GPU handles by the live managers of a program: a manager whose handle
  is 0 owns nothing; no two managers hold the same handle other than 0; and a handle
  that is held is a buffer name in use.
\<close>

definition sole_owners :: "'v VertexBufferImpl list \<Rightarrow> bool" where
  "sole_owners ms = distinct (filter (\<lambda>h. h \<noteq> 0) (map handle ms))"

definition handles_allocated :: "gl_context \<Rightarrow> 'v VertexBufferImpl list \<Rightarrow> bool" where
  "handles_allocated ctx ms =
     (0 \<notin> set (buffer_names ctx) \<and>
      list_all (\<lambda>m. handle m = 0 \<or> handle m \<in> set (buffer_names ctx)) ms)"

definition ownership_invariant :: "gl_context \<Rightarrow> 'v VertexBufferImpl list \<Rightarrow> bool" where
  "ownership_invariant ctx ms = (sole_owners ms \<and> handles_allocated ctx ms)"

text \<open>
  The states a program reaches with the managers it has constructed and not yet
  destroyed. The class has no copy constructor (its move constructor is user-declared),
  so a manager comes from a constructor or from the move constructor only. The last
  rule stands for every other step, of the class (\<^verbatim>\<open>bind\<close>, the attribute registrations,
  \<^verbatim>\<open>resetAttributes\<close>) or of other code, that leaves the buffer names and the managers'
  handles as they are.
\<close>

inductive reachable :: "gl_context \<Rightarrow> 'v VertexBufferImpl list \<Rightarrow> bool" where
  initial: "0 \<notin> set (buffer_names ctx) \<Longrightarrow> reachable ctx []"
| construct:
    "reachable ctx ms \<Longrightarrow> fresh_name ctx \<Longrightarrow>
     VertexBufferImpl_ctor targs d ctx = (Inr m, ctx') \<Longrightarrow> reachable ctx' (ms @ [m])"
| construct_failed:
    "reachable ctx ms \<Longrightarrow> fresh_name ctx \<Longrightarrow>
     VertexBufferImpl_ctor targs (d :: 'v list) ctx = (Inl e, ctx') \<Longrightarrow> reachable ctx' ms"
| move_construct:
    "reachable ctx (ms1 @ rhs # ms2) \<Longrightarrow>
     VertexBufferImpl_move_ctor rhs = (new, rhs') \<Longrightarrow>
     reachable ctx (ms1 @ rhs' # ms2 @ [new])"
| set_vertex_data:
    "reachable ctx (ms1 @ m # ms2) \<Longrightarrow> fresh_name ctx \<Longrightarrow>
     setVertexData targs d ctx m = (r, ctx', m') \<Longrightarrow> reachable ctx' (ms1 @ m' # ms2)"
| destroy:
    "reachable ctx (ms1 @ m # ms2) \<Longrightarrow> reachable (VertexBufferImpl_dtor m ctx) (ms1 @ ms2)"
| other:
    "reachable ctx ms \<Longrightarrow> buffer_names ctx' = buffer_names ctx \<Longrightarrow>
     map handle ms' = map handle ms \<Longrightarrow> reachable ctx' ms'"

section \<open>Example inputs\<close>

text \<open>
  A context with two buffers in use, the second one bound, a driver that cannot
  allocate more than 64 bytes, and a current program with the one attribute
  \<^verbatim>\<open>position\<close>; template arguments with a vertex of four bytes; a manager that owns the
  first buffer and one that owns the bound buffer.
\<close>

definition GL_STATIC_DRAW :: GLenum where "GL_STATIC_DRAW = 0x88E4"

definition example_context :: gl_context where
  "example_context =
     \<lparr>buffer_names = [1, 5],
      gen_name = (\<lambda>names. word_of_nat (length names) + 5),
      out_of_memory = (\<lambda>n. 64 < n),
      buffer_store = [1 \<mapsto> (8, GL_STATIC_DRAW), 5 \<mapsto> (12, GL_STATIC_DRAW)],
      array_buffer_binding = 5,
      current_program = 3,
      attrib_table = (\<lambda>p. if p = 3 then [''position'' \<mapsto> 0] else Map.empty),
      enabled_attribs = {},
      attrib_formats = Map.empty,
      error_flag = GL_NO_ERROR\<rparr>"

definition example_args :: template_args where
  "example_args = \<lparr>sizeof_T = 4, Usage = GL_STATIC_DRAW\<rparr>"

definition position_attribute :: attribute_pointer where
  "position_attribute =
     AttributePointer \<lparr>ap_name = ''position'', ap_size = 3, ap_type = GL_FLOAT, ap_stride = 0,
       ap_offset = 0, ap_normalized = GL_FALSE\<rparr>"

definition normal_attribute :: attribute_pointer where
  "normal_attribute =
     AttributePointer \<lparr>ap_name = ''normal'', ap_size = 3, ap_type = GL_FLOAT, ap_stride = 0,
       ap_offset = 12, ap_normalized = GL_FALSE\<rparr>"

definition example_buffer :: "nat VertexBufferImpl" where
  "example_buffer =
     \<lparr>handle = 1, data = [10, 20], attributes = [position_attribute, normal_attribute]\<rparr>"

definition bound_buffer :: "nat VertexBufferImpl" where
  "bound_buffer = \<lparr>handle = 5, data = [1, 2, 3], attributes = []\<rparr>"


section \<open>Facts about the GPU context\<close>

lemmas GL_type_defs =
  GL_BYTE_def GL_UNSIGNED_BYTE_def GL_SHORT_def GL_UNSIGNED_SHORT_def GL_INT_def
  GL_UNSIGNED_INT_def GL_FLOAT_def GL_DOUBLE_def GL_HALF_FLOAT_def GL_FIXED_def
  GL_UNSIGNED_INT_2_10_10_10_REV_def GL_UNSIGNED_INT_10F_11F_11F_REV_def
  GL_INT_2_10_10_10_REV_def

text \<open>A \<^verbatim>\<open>GLint\<close> read from a name is 0 exactly when the name is 0.\<close>

lemma sint_eq_0_iff32: "(sint (x :: 32 word) = 0) = (x = 0)"
proof
  assume "sint x = 0"
  then have "word_of_int (sint x) = (word_of_int 0 :: 32 word)" by simp
  then show "x = 0" by simp
qed simp

lemma names_glBufferData: "buffer_names (glBufferData n u ctx) = buffer_names ctx"
  by (simp add: glBufferData_def record_error_def)

lemma oom_glBufferData:
  "array_buffer_binding ctx \<noteq> 0 \<Longrightarrow> error_flag ctx = GL_NO_ERROR \<Longrightarrow> out_of_memory ctx n \<Longrightarrow>
   error_flag (glBufferData n u ctx) = GL_OUT_OF_MEMORY"
  by (simp add: glBufferData_def record_error_def)

text \<open>
  The two functions that upload, with the helper's constructor and destructor and the
  calls that only read the context unfolded.
\<close>

lemma ctor_cases:
  "VertexBufferImpl_ctor targs d ctx =
    (let h = gen_name ctx (buffer_names ctx);
         c3 = glBufferData (sizeof_T targs * length d) (Usage targs)
                (ctx\<lparr>buffer_names := h # buffer_names ctx, array_buffer_binding := h\<rparr>)
     in if error_flag c3 = GL_OUT_OF_MEMORY
        then (Inl ResourceException,
              glBindBuffer (array_buffer_binding ctx) (c3\<lparr>error_flag := GL_NO_ERROR\<rparr>))
        else (Inr \<lparr>handle = h, data = d, attributes = []\<rparr>,
              glBindBuffer (array_buffer_binding ctx) (c3\<lparr>error_flag := GL_NO_ERROR\<rparr>)))"
  by (simp add: VertexBufferImpl_ctor_def glGenBuffers_def VertexBufferBindHelper_ctor_def
      VertexBufferBindHelper_dtor_def glGetError_def glBindBuffer_def
      glGetIntegerv_ARRAY_BUFFER_BINDING_def Let_def split: prod.splits)

lemma rebuffer_cases:
  "rebuffer targs d ctx this =
    (let h = gen_name ctx (buffer_names ctx);
         c3 = glBufferData (sizeof_T targs * length d) (Usage targs)
                (ctx\<lparr>buffer_names := h # buffer_names ctx, array_buffer_binding := h\<rparr>)
     in if error_flag c3 = GL_OUT_OF_MEMORY
        then (Some ResourceException,
              glBindBuffer (array_buffer_binding ctx)
                (glDeleteBuffers h (c3\<lparr>error_flag := GL_NO_ERROR\<rparr>)),
              this)
        else (None,
              glBindBuffer (array_buffer_binding ctx)
                (glDeleteBuffers (handle this) (c3\<lparr>error_flag := GL_NO_ERROR\<rparr>)),
              this\<lparr>data := d, handle := h\<rparr>))"
  by (simp add: rebuffer_def glGenBuffers_def VertexBufferBindHelper_ctor_def
      VertexBufferBindHelper_dtor_def glGetError_def glBindBuffer_def
      glGetIntegerv_ARRAY_BUFFER_BINDING_def Let_def split: prod.splits)

lemma setVertexData_unbound:
  "handle this \<noteq> array_buffer_binding ctx \<Longrightarrow>
   setVertexData targs d ctx this = rebuffer targs d ctx this"
  by (simp add: setVertexData_def glGetIntegerv_ARRAY_BUFFER_BINDING_def)

lemma ctor_names:
  "buffer_names (snd (VertexBufferImpl_ctor targs d ctx)) =
     gen_name ctx (buffer_names ctx) # buffer_names ctx"
  by (simp add: ctor_cases Let_def names_glBufferData glBindBuffer_def)

lemma ctor_handle:
  "VertexBufferImpl_ctor targs d ctx = (Inr m, ctx') \<Longrightarrow> handle m = gen_name ctx (buffer_names ctx)"
  by (auto simp add: ctor_cases Let_def split: if_splits)

lemma ctor_oom:
  assumes "fresh_name ctx" "error_flag ctx = GL_NO_ERROR"
    and "out_of_memory ctx (sizeof_T targs * length d)"
  shows "fst (VertexBufferImpl_ctor targs d ctx) = Inl ResourceException"
  using assms by (simp add: ctor_cases Let_def fresh_name_def oom_glBufferData)



lemma rebuffer_succeeded:
  assumes "fresh_name ctx" "handle this \<noteq> 0" "handle this \<in> set (buffer_names ctx)"
    and "fst (rebuffer targs d ctx this) = None"
  shows "snd (snd (rebuffer targs d ctx this)) =
           this\<lparr>data := d, handle := gen_name ctx (buffer_names ctx)\<rparr>"
    and "set (buffer_names (fst (snd (rebuffer targs d ctx this)))) =
           insert (gen_name ctx (buffer_names ctx)) (set (buffer_names ctx) - {handle this})"
  using assms
  by (auto simp add: rebuffer_cases Let_def fresh_name_def names_glBufferData
      glDeleteBuffers_def glBindBuffer_def split: if_splits)

lemma binding_rebuffer:
  "array_buffer_binding (fst (snd (rebuffer targs d ctx this))) = array_buffer_binding ctx"
  by (simp add: rebuffer_cases Let_def glBindBuffer_def)

lemma binding_ctor:
  "array_buffer_binding (snd (VertexBufferImpl_ctor targs d ctx)) = array_buffer_binding ctx"
  by (simp add: ctor_cases Let_def glBindBuffer_def)

section \<open>Construction\<close>

text \<open>
  C1. The claim: when construction fails because the upload runs out of memory, it
  fails with \<^verbatim>\<open>ResourceException\<close> and the handle it created is released, so that the
  number of buffers in use is unchanged. What the source does: the constructor throws
  \<^verbatim>\<open>ResourceException\<close>, but it makes no call to \<^verbatim>\<open>glDeleteBuffers\<close> (as \<^verbatim>\<open>rebuffer\<close> does),
  and the destructor of an object whose constructor throws does not run. The name the
  constructor generated stays in use: there is one buffer more than before.
\<close>

theorem ctor_out_of_memory_leaks_handle:
  assumes "fresh_name ctx" "error_flag ctx = GL_NO_ERROR"
    and "out_of_memory ctx (sizeof_T targs * length d)"
  shows "fst (VertexBufferImpl_ctor targs d ctx) = Inl ResourceException \<and>
         gen_name ctx (buffer_names ctx) \<in> set (buffer_names (snd (VertexBufferImpl_ctor targs d ctx))) \<and>
         length (buffer_names (snd (VertexBufferImpl_ctor targs d ctx))) =
           Suc (length (buffer_names ctx))"
  using ctor_oom [OF assms] by (simp add: ctor_names)

theorem ctor_out_of_memory_leaks_handle_witness:
  "fresh_name example_context \<and> error_flag example_context = GL_NO_ERROR \<and>
   out_of_memory example_context (sizeof_T example_args * length (replicate 20 (0::nat))) \<and>
   fst (VertexBufferImpl_ctor example_args (replicate 20 (0::nat)) example_context) =
     Inl ResourceException \<and>
   length (buffer_names example_context) = 2 \<and>
   length (buffer_names
     (snd (VertexBufferImpl_ctor example_args (replicate 20 (0::nat)) example_context))) = 3"
proof -
  have f: "fresh_name example_context"
    by (simp add: fresh_name_def example_context_def)
  have e: "error_flag example_context = GL_NO_ERROR"
    by (simp add: example_context_def)
  have m: "out_of_memory example_context (sizeof_T example_args * length (replicate 20 (0::nat)))"
    by (simp add: example_context_def example_args_def)
  from ctor_out_of_memory_leaks_handle [OF f e m] f e m show ?thesis
    by (simp add: example_context_def)
qed

section \<open>Re-upload\<close>

text \<open>
  C2. For every manager, every input sequence and every context: when the manager's
  handle is the buffer currently bound, \<^verbatim>\<open>setVertexData\<close> throws \<^verbatim>\<open>BindException\<close> and
  leaves the manager (its data, its handle, its attributes) and the context unchanged.
\<close>

theorem setVertexData_bound_fails:
  "handle this = array_buffer_binding ctx \<Longrightarrow>
   setVertexData targs d ctx this = (Some BindException, ctx, this)"
  by (simp add: setVertexData_def glGetIntegerv_ARRAY_BUFFER_BINDING_def)

theorem setVertexData_bound_fails_witness:
  "handle bound_buffer = array_buffer_binding example_context \<and>
   setVertexData example_args [7, 8] example_context bound_buffer =
     (Some BindException, example_context, bound_buffer)"
proof -
  have b: "handle bound_buffer = array_buffer_binding example_context"
    by (simp add: bound_buffer_def example_context_def)
  from setVertexData_bound_fails [OF b] b show ?thesis by simp
qed




text \<open>
  C4. For every manager that is not bound and owns nothing or a buffer in use, and
  every input sequence, when the name \<^verbatim>\<open>glGenBuffers\<close> hands out is fresh: after a
  \<^verbatim>\<open>setVertexData\<close> that throws nothing, the manager's data is the input sequence, its
  handle is the new name, which was not in use before and is in use now, and the old
  handle is not in use any more. The attribute list is unchanged.
\<close>

theorem setVertexData_success:
  assumes "handle this \<noteq> array_buffer_binding ctx" and "fresh_name ctx"
    and "handles_allocated ctx [this]"
    and "fst (setVertexData targs d ctx this) = None"
  shows "data (snd (snd (setVertexData targs d ctx this))) = d \<and>
         handle (snd (snd (setVertexData targs d ctx this))) = gen_name ctx (buffer_names ctx) \<and>
         attributes (snd (snd (setVertexData targs d ctx this))) = attributes this \<and>
         gen_name ctx (buffer_names ctx) \<notin> set (buffer_names ctx) \<and>
         gen_name ctx (buffer_names ctx) \<in>
           set (buffer_names (fst (snd (setVertexData targs d ctx this)))) \<and>
         handle this \<notin> set (buffer_names (fst (snd (setVertexData targs d ctx this))))"
proof -
  from assms(1,4) have ok: "fst (rebuffer targs d ctx this) = None"
    by (simp add: setVertexData_unbound)
  then have e: "error_flag (glBufferData (sizeof_T targs * length d) (Usage targs)
                  (ctx\<lparr>buffer_names := gen_name ctx (buffer_names ctx) # buffer_names ctx,
                       array_buffer_binding := gen_name ctx (buffer_names ctx)\<rparr>)) \<noteq> GL_OUT_OF_MEMORY"
    by (auto simp add: rebuffer_cases Let_def split: if_splits)
  from assms(3) have z: "0 \<notin> set (buffer_names ctx)"
    and own: "handle this = 0 \<or> handle this \<in> set (buffer_names ctx)"
    by (simp_all add: handles_allocated_def)
  from assms(2) have f: "gen_name ctx (buffer_names ctx) \<noteq> 0"
    "gen_name ctx (buffer_names ctx) \<notin> set (buffer_names ctx)"
    by (simp_all add: fresh_name_def)
  from own f have ne: "handle this \<noteq> gen_name ctx (buffer_names ctx)" by auto
  have r: "setVertexData targs d ctx this = rebuffer targs d ctx this"
    using assms(1) by (rule setVertexData_unbound)
  show ?thesis
    using e z f ne
    by (auto simp add: r rebuffer_cases Let_def names_glBufferData glDeleteBuffers_def
        glBindBuffer_def)
qed

theorem setVertexData_success_witness:
  "handle example_buffer \<noteq> array_buffer_binding example_context \<and>
   fresh_name example_context \<and>
   handles_allocated example_context [example_buffer] \<and>
   fst (setVertexData example_args [7, 8] example_context example_buffer) = None \<and>
   data (snd (snd (setVertexData example_args [7, 8] example_context example_buffer))) = [7, 8] \<and>
   handle (snd (snd (setVertexData example_args [7, 8] example_context example_buffer))) = 7 \<and>
   handle example_buffer = 1 \<and>
   1 \<notin> set (buffer_names
     (fst (snd (setVertexData example_args [7, 8] example_context example_buffer))))"
proof -
  have b: "handle example_buffer \<noteq> array_buffer_binding example_context"
    by (simp add: example_buffer_def example_context_def)
  have f: "fresh_name example_context"
    by (simp add: fresh_name_def example_context_def)
  have a: "handles_allocated example_context [example_buffer]"
    by (simp add: handles_allocated_def example_buffer_def example_context_def)
  have s: "fst (setVertexData example_args [7, 8] example_context example_buffer) = None"
    by (simp add: setVertexData_unbound [OF b] rebuffer_cases Let_def glBufferData_def
        record_error_def)
       (simp add: example_context_def example_args_def GL_NO_ERROR_def GL_OUT_OF_MEMORY_def)
  have g: "gen_name example_context (buffer_names example_context) = 7"
    by (simp add: example_context_def)
  have h: "handle example_buffer = 1"
    by (simp add: example_buffer_def)
  from setVertexData_success [OF b f a s] b f a s g h show ?thesis by simp
qed

text \<open>
  C7. For every call of a constructor and of \<^verbatim>\<open>setVertexData\<close>, whatever its outcome
  (a return, \<^verbatim>\<open>ResourceException\<close> or \<^verbatim>\<open>BindException\<close>): the array-buffer binding of the
  context after the call is the binding on entry.
\<close>

theorem binding_restored_on_every_exit:
  "array_buffer_binding (snd (VertexBufferImpl_ctor targs d ctx)) = array_buffer_binding ctx \<and>
   array_buffer_binding (fst (snd (setVertexData targs d' ctx this))) = array_buffer_binding ctx"
  by (simp add: binding_ctor setVertexData_def binding_rebuffer Let_def)

theorem binding_restored_on_every_exit_witness:
  "array_buffer_binding example_context = 5 \<and>
   array_buffer_binding
     (snd (VertexBufferImpl_ctor example_args (replicate 20 (0::nat)) example_context)) = 5 \<and>
   array_buffer_binding
     (fst (snd (setVertexData example_args [7, 8] example_context example_buffer))) = 5"
proof -
  have b: "array_buffer_binding example_context = 5"
    by (simp add: example_context_def)
  from binding_restored_on_every_exit
         [of example_args "replicate 20 (0::nat)" example_context "[7, 8]" example_buffer] b
  show ?thesis by simp
qed

section \<open>Attribute registration\<close>

lemma base_ctor_rules:
  "AttributePointerBase_ctor name size' type' stride offset normalized =
     (if spec_attribute_rules size' type' stride normalized
      then Inr \<lparr>ap_name = name, ap_size = size', ap_type = type', ap_stride = stride,
                ap_offset = offset, ap_normalized = normalized\<rparr>
      else Inl InvalidAttributeSpec)"
  unfolding AttributePointerBase_ctor_def dynamic_assert_def spec_attribute_rules_def
  by (auto simp: GL_BGRA_def)

text \<open>
  C5, as the claim states it: registration succeeds exactly when the arguments satisfy
  the rules of the specification for the family. For the floating-point family this
  is false: component count 1, stride 0 and the type \<^verbatim>\<open>0x1407\<close> (\<^verbatim>\<open>GL_2_BYTES\<close>, which is
  none of the packed types) satisfy every rule, and \<^verbatim>\<open>addAttributePointer\<close> fails, by
  error condition (3) of \<^verbatim>\<open>AttributePointer\<close>.
\<close>

theorem addAttributePointer_rejects_unlisted_type:
  "spec_attribute_rules 1 0x1407 0 GL_FALSE \<and>
   addAttributePointer ''color'' 1 0x1407 GL_FALSE 0 0 bound_buffer =
     (Some InvalidAttributeSpec, bound_buffer)"
proof -
  have "spec_attribute_rules 1 0x1407 0 GL_FALSE"
    by (simp add: spec_attribute_rules_def GL_type_defs GL_BGRA_def)
  moreover have "AttributePointerBase_ctor ''color'' 1 0x1407 0 0 GL_FALSE =
      Inr \<lparr>ap_name = ''color'', ap_size = 1, ap_type = 0x1407, ap_stride = 0,
           ap_offset = 0, ap_normalized = GL_FALSE\<rparr>"
    by (simp add: AttributePointerBase_ctor_def dynamic_assert_def GL_type_defs GL_BGRA_def)
  then have "addAttributePointer ''color'' 1 0x1407 GL_FALSE 0 0 bound_buffer =
      (Some InvalidAttributeSpec, bound_buffer)"
    by (simp add: addAttributePointer_def push_back_def AttributePointer_ctor_def
        dynamic_assert_def GL_type_defs)
  ultimately show ?thesis by simp
qed

text \<open>
  C5, amended. For every registration: \<^verbatim>\<open>addAttributePointer\<close> appends the descriptor
  and throws nothing exactly when the arguments satisfy the rules of the specification
  and the type is one of the thirteen types of \<open>float_family_types\<close>;
  \<^verbatim>\<open>addAttributeIPointer\<close> exactly when they satisfy the rules with \<^verbatim>\<open>normalized = GL_FALSE\<close>
  (so never with \<^verbatim>\<open>GL_BGRA\<close>) and the type is one of the six exact-integer types;
  \<^verbatim>\<open>addAttributeLPointer\<close>, whose type is always \<^verbatim>\<open>GL_DOUBLE\<close>, exactly when the component
  count is 1, 2, 3 or 4 and the stride is not negative. In every other case the call
  fails with \<^verbatim>\<open>InvalidAttributeSpec\<close> and the manager is unchanged.
\<close>

theorem attribute_registration_rules:
  "addAttributePointer name size' type' normalized stride offset this =
     (if spec_attribute_rules size' type' stride normalized \<and> type' \<in> float_family_types
      then (None, this\<lparr>attributes := attributes this @
              [AttributePointer \<lparr>ap_name = name, ap_size = size', ap_type = type',
                 ap_stride = stride, ap_offset = offset, ap_normalized = normalized\<rparr>]\<rparr>)
      else (Some InvalidAttributeSpec, this)) \<and>
   addAttributeIPointer name size' type' stride offset this =
     (if spec_attribute_rules size' type' stride GL_FALSE \<and> type' \<in> spec_integer_types
      then (None, this\<lparr>attributes := attributes this @
              [AttributeIPointer \<lparr>ap_name = name, ap_size = size', ap_type = type',
                 ap_stride = stride, ap_offset = offset, ap_normalized = GL_FALSE\<rparr>]\<rparr>)
      else (Some InvalidAttributeSpec, this)) \<and>
   addAttributeLPointer name size' stride offset this =
     (if (size' = 1 \<or> size' = 2 \<or> size' = 3 \<or> size' = 4) \<and> 0 \<le> stride
      then (None, this\<lparr>attributes := attributes this @
              [AttributeLPointer \<lparr>ap_name = name, ap_size = size', ap_type = GL_DOUBLE,
                 ap_stride = stride, ap_offset = offset, ap_normalized = GL_FALSE\<rparr>]\<rparr>)
      else (Some InvalidAttributeSpec, this)) \<and>
   \<not> spec_attribute_rules GL_BGRA type' stride GL_FALSE"
proof (intro conjI)
  show "addAttributePointer name size' type' normalized stride offset this =
     (if spec_attribute_rules size' type' stride normalized \<and> type' \<in> float_family_types
      then (None, this\<lparr>attributes := attributes this @
              [AttributePointer \<lparr>ap_name = name, ap_size = size', ap_type = type',
                 ap_stride = stride, ap_offset = offset, ap_normalized = normalized\<rparr>]\<rparr>)
      else (Some InvalidAttributeSpec, this))"
    by (simp add: addAttributePointer_def push_back_def AttributePointer_ctor_def
        base_ctor_rules dynamic_assert_def float_family_types_def)
next
  show "addAttributeIPointer name size' type' stride offset this =
     (if spec_attribute_rules size' type' stride GL_FALSE \<and> type' \<in> spec_integer_types
      then (None, this\<lparr>attributes := attributes this @
              [AttributeIPointer \<lparr>ap_name = name, ap_size = size', ap_type = type',
                 ap_stride = stride, ap_offset = offset, ap_normalized = GL_FALSE\<rparr>]\<rparr>)
      else (Some InvalidAttributeSpec, this))"
    by (simp add: addAttributeIPointer_def push_back_def AttributeIPointer_ctor_def
        base_ctor_rules dynamic_assert_def spec_integer_types_def)
next
  have dbl: "spec_attribute_rules size' GL_DOUBLE stride GL_FALSE =
      ((size' = 1 \<or> size' = 2 \<or> size' = 3 \<or> size' = 4) \<and> 0 \<le> stride)"
    by (auto simp add: spec_attribute_rules_def GL_type_defs GL_BGRA_def)
  show "addAttributeLPointer name size' stride offset this =
     (if (size' = 1 \<or> size' = 2 \<or> size' = 3 \<or> size' = 4) \<and> 0 \<le> stride
      then (None, this\<lparr>attributes := attributes this @
              [AttributeLPointer \<lparr>ap_name = name, ap_size = size', ap_type = GL_DOUBLE,
                 ap_stride = stride, ap_offset = offset, ap_normalized = GL_FALSE\<rparr>]\<rparr>)
      else (Some InvalidAttributeSpec, this))"
    by (simp add: addAttributeLPointer_def push_back_def AttributeLPointer_ctor_def
        base_ctor_rules dynamic_assert_def dbl)
next
  show "\<not> spec_attribute_rules GL_BGRA type' stride GL_FALSE"
    by (simp add: spec_attribute_rules_def GL_FALSE_def GL_TRUE_def)
qed

theorem attribute_registration_rules_witness:
  "addAttributePointer ''position'' 3 GL_FLOAT GL_FALSE 0 0 bound_buffer =
     (None, bound_buffer\<lparr>attributes := [position_attribute]\<rparr>) \<and>
   addAttributePointer ''color'' GL_BGRA GL_UNSIGNED_BYTE GL_FALSE 0 0 bound_buffer =
     (Some InvalidAttributeSpec, bound_buffer) \<and>
   addAttributeIPointer ''index'' 1 GL_FLOAT 0 0 bound_buffer =
     (Some InvalidAttributeSpec, bound_buffer) \<and>
   addAttributeLPointer ''weight'' 5 0 0 bound_buffer =
     (Some InvalidAttributeSpec, bound_buffer)"
proof -
  have p: "spec_attribute_rules 3 GL_FLOAT 0 GL_FALSE \<and> GL_FLOAT \<in> float_family_types"
    by (simp add: spec_attribute_rules_def float_family_types_def GL_type_defs GL_BGRA_def)
  have c: "\<not> spec_attribute_rules GL_BGRA GL_UNSIGNED_BYTE 0 GL_FALSE"
    by (simp add: spec_attribute_rules_def GL_FALSE_def GL_TRUE_def)
  have i: "GL_FLOAT \<notin> spec_integer_types"
    by (simp add: spec_integer_types_def GL_type_defs)
  have a: "attributes bound_buffer = []"
    by (simp add: bound_buffer_def)
  from attribute_registration_rules [of "''position''" 3 GL_FLOAT GL_FALSE 0 0 bound_buffer] p a
  have 1: "addAttributePointer ''position'' 3 GL_FLOAT GL_FALSE 0 0 bound_buffer =
     (None, bound_buffer\<lparr>attributes := [position_attribute]\<rparr>)"
    by (simp add: position_attribute_def)
  from attribute_registration_rules [of "''color''" GL_BGRA GL_UNSIGNED_BYTE GL_FALSE 0 0 bound_buffer] c
  have 2: "addAttributePointer ''color'' GL_BGRA GL_UNSIGNED_BYTE GL_FALSE 0 0 bound_buffer =
     (Some InvalidAttributeSpec, bound_buffer)"
    by simp
  from attribute_registration_rules [of "''index''" 1 GL_FLOAT GL_FALSE 0 0 bound_buffer] i
  have 3: "addAttributeIPointer ''index'' 1 GL_FLOAT 0 0 bound_buffer =
     (Some InvalidAttributeSpec, bound_buffer)"
    by simp
  from attribute_registration_rules [of "''weight''" 5 GL_FLOAT GL_FALSE 0 0 bound_buffer]
  have 4: "addAttributeLPointer ''weight'' 5 0 0 bound_buffer =
     (Some InvalidAttributeSpec, bound_buffer)"
    by simp
  from 1 2 3 4 show ?thesis by simp
qed

section \<open>Bind\<close>

lemma table_postBind: "attrib_table (postBind a l ctx) = attrib_table ctx"
  by (cases a) (simp_all add: glVertexAttribFormat_def)

lemma table_enable: "attrib_table (glEnableVertexAttribArray i ctx) = attrib_table ctx"
  by (simp add: glEnableVertexAttribArray_def)

lemma bind_one_missing:
  "p \<noteq> 0 \<Longrightarrow> attrib_table ctx p (ap_name (base a)) = None \<Longrightarrow>
   AttributePointerBase_bind a p ctx =
     (Some (AttributeNotFoundException (ap_name (base a))), ctx)"
  by (simp add: AttributePointerBase_bind_def getAttribLocation_def dynamic_assert_def
      glGetAttribLocation_def)

lemma bind_one_present:
  "p \<noteq> 0 \<Longrightarrow> attrib_table ctx p (ap_name (base a)) = Some l \<Longrightarrow>
   int l < GL_MAX_VERTEX_ATTRIBS \<Longrightarrow>
   AttributePointerBase_bind a p ctx =
     (None, postBind a (int l) (glEnableVertexAttribArray (word_of_nat l) ctx))"
  by (simp add: AttributePointerBase_bind_def getAttribLocation_def dynamic_assert_def
      glGetAttribLocation_def)

text \<open>
  The loop of \<^verbatim>\<open>bind\<close> stops at the first descriptor whose name the program lacks: the
  descriptors before it are bound, which leaves the attribute table as it is.
\<close>

lemma bind_attributes_missing:
  assumes "p \<noteq> 0"
    and "list_all (\<lambda>a. case attrib_table ctx p (ap_name (base a)) of
                          None \<Rightarrow> True | Some l \<Rightarrow> int l < GL_MAX_VERTEX_ATTRIBS) ptrs"
    and "\<exists>a \<in> set ptrs. attrib_table ctx p (ap_name (base a)) = None"
  shows "\<exists>a \<in> set ptrs. attrib_table ctx p (ap_name (base a)) = None \<and>
           fst (bind_attributes ptrs p ctx) =
             Some (AttributeNotFoundException (ap_name (base a)))"
  using assms
proof (induction ptrs arbitrary: ctx)
  case Nil
  then show ?case by simp
next
  case (Cons a ptrs)
  show ?case
  proof (cases "attrib_table ctx p (ap_name (base a))")
    case None
    with Cons.prems(1) show ?thesis by (simp add: bind_one_missing)
  next
    case (Some l)
    from Cons.prems(2) Some have r: "int l < GL_MAX_VERTEX_ATTRIBS" by simp
    let ?c = "postBind a (int l) (glEnableVertexAttribArray (word_of_nat l) ctx)"
    have t: "attrib_table ?c = attrib_table ctx"
      by (simp add: table_postBind table_enable)
    from Cons.prems(3) Some
    have ex: "\<exists>a \<in> set ptrs. attrib_table ?c p (ap_name (base a)) = None"
      by (auto simp: t)
    from Cons.prems(2)
    have la: "list_all (\<lambda>a. case attrib_table ?c p (ap_name (base a)) of
                None \<Rightarrow> True | Some l \<Rightarrow> int l < GL_MAX_VERTEX_ATTRIBS) ptrs"
      by (simp add: t)
    from Cons.IH [OF Cons.prems(1) la ex]
    show ?thesis using Cons.prems(1) Some r by (auto simp: bind_one_present t)
  qed
qed

text \<open>
  C6. For every manager and context: when no program is current, \<^verbatim>\<open>bind\<close> throws
  \<^verbatim>\<open>BindException\<close>; when a program is current that lacks the name of some registered
  descriptor, \<^verbatim>\<open>bind\<close> throws \<^verbatim>\<open>AttributeNotFoundException\<close> for the name of a registered
  descriptor that the program lacks. The slots that \<^verbatim>\<open>glGetAttribLocation\<close> returns are
  taken to be below \<^verbatim>\<open>GL_MAX_VERTEX_ATTRIBS\<close>, which the source asserts after each lookup.
\<close>

theorem bind_failures:
  "(current_program ctx = 0 \<longrightarrow> fst (bind ctx this) = Some BindException) \<and>
   (current_program ctx \<noteq> 0 \<and> locations_in_range ctx this \<and>
    (\<exists>a \<in> set (attributes this). lacks_attribute ctx a) \<longrightarrow>
    (\<exists>a \<in> set (attributes this). lacks_attribute ctx a \<and>
       fst (bind ctx this) = Some (AttributeNotFoundException (ap_name (base a)))))"
proof (intro conjI impI)
  assume "current_program ctx = 0"
  then show "fst (bind ctx this) = Some BindException"
    by (simp add: bind_def glGetIntegerv_CURRENT_PROGRAM_def)
next
  assume a: "current_program ctx \<noteq> 0 \<and> locations_in_range ctx this \<and>
    (\<exists>a \<in> set (attributes this). lacks_attribute ctx a)"
  let ?c = "glBindBuffer (handle this) ctx"
  have t: "attrib_table ?c = attrib_table ctx"
    by (simp add: glBindBuffer_def)
  from a have "\<exists>a \<in> set (attributes this).
      attrib_table ?c (current_program ctx) (ap_name (base a)) = None \<and>
      fst (bind_attributes (attributes this) (current_program ctx) ?c) =
        Some (AttributeNotFoundException (ap_name (base a)))"
    by (intro bind_attributes_missing)
       (simp_all add: t locations_in_range_def lacks_attribute_def)
  with a show "\<exists>a \<in> set (attributes this). lacks_attribute ctx a \<and>
       fst (bind ctx this) = Some (AttributeNotFoundException (ap_name (base a)))"
    by (simp add: bind_def glGetIntegerv_CURRENT_PROGRAM_def sint_eq_0_iff32 t
        lacks_attribute_def)
qed

theorem bind_failures_witness:
  "current_program (example_context\<lparr>current_program := 0\<rparr>) = 0 \<and>
   fst (bind (example_context\<lparr>current_program := 0\<rparr>) example_buffer) = Some BindException \<and>
   current_program example_context \<noteq> 0 \<and>
   locations_in_range example_context example_buffer \<and>
   normal_attribute \<in> set (attributes example_buffer) \<and>
   lacks_attribute example_context normal_attribute \<and>
   fst (bind example_context example_buffer) = Some (AttributeNotFoundException ''normal'')"
proof -
  have z: "current_program (example_context\<lparr>current_program := 0\<rparr>) = 0"
    by simp
  have p: "current_program example_context \<noteq> 0"
    by (simp add: example_context_def)
  have r: "locations_in_range example_context example_buffer"
    by (simp add: locations_in_range_def example_context_def example_buffer_def
        position_attribute_def normal_attribute_def GL_MAX_VERTEX_ATTRIBS_def)
  have m: "normal_attribute \<in> set (attributes example_buffer)"
    by (simp add: example_buffer_def)
  have l: "lacks_attribute example_context normal_attribute"
    by (simp add: lacks_attribute_def example_context_def normal_attribute_def)
  have only: "a = normal_attribute"
    if "a \<in> set (attributes example_buffer)" "lacks_attribute example_context a" for a
    using that
    by (auto simp add: example_buffer_def lacks_attribute_def example_context_def
        position_attribute_def)
  from bind_failures [of "example_context\<lparr>current_program := 0\<rparr>" example_buffer] z
  have 1: "fst (bind (example_context\<lparr>current_program := 0\<rparr>) example_buffer) =
             Some BindException"
    by blast
  from bind_failures [of example_context example_buffer] p r m l
  obtain a where "a \<in> set (attributes example_buffer)" "lacks_attribute example_context a"
    and e: "fst (bind example_context example_buffer) =
              Some (AttributeNotFoundException (ap_name (base a)))"
    by blast
  with only have "a = normal_attribute" by blast
  with e have 2: "fst (bind example_context example_buffer) =
                    Some (AttributeNotFoundException ''normal'')"
    by (simp add: normal_attribute_def)
  from z 1 p r m l 2 show ?thesis by simp
qed

text \<open>
  C9. For every manager and context: when no program is current, \<^verbatim>\<open>bind\<close> throws
  \<^verbatim>\<open>BindException\<close> and the context after the call is the context before it: the
  array-buffer binding, the enabled slots and every other part of the GPU state.
\<close>

theorem bind_without_program_changes_nothing:
  "current_program ctx = 0 \<Longrightarrow> bind ctx this = (Some BindException, ctx)"
  by (simp add: bind_def glGetIntegerv_CURRENT_PROGRAM_def)

theorem bind_without_program_changes_nothing_witness:
  "current_program (example_context\<lparr>current_program := 0\<rparr>) = 0 \<and>
   bind (example_context\<lparr>current_program := 0\<rparr>) example_buffer =
     (Some BindException, example_context\<lparr>current_program := 0\<rparr>)"
proof -
  have z: "current_program (example_context\<lparr>current_program := 0\<rparr>) = 0"
    by simp
  from bind_without_program_changes_nothing [OF z] z show ?thesis by simp
qed

text \<open>
  C8. For every manager: \<^verbatim>\<open>resetAttributes\<close> empties the attribute list and leaves the
  handle and the data; it has no access to the GPU context. A \<^verbatim>\<open>bind\<close> that follows
  it, with a program current, throws nothing and changes the array-buffer binding
  only: the enabled slots and the formats of the slots are those before the call.
\<close>

theorem resetAttributes_then_bind:
  "current_program ctx \<noteq> 0 \<Longrightarrow>
   attributes (resetAttributes this) = [] \<and>
   handle (resetAttributes this) = handle this \<and>
   data (resetAttributes this) = data this \<and>
   bind ctx (resetAttributes this) = (None, ctx\<lparr>array_buffer_binding := handle this\<rparr>) \<and>
   enabled_attribs (snd (bind ctx (resetAttributes this))) = enabled_attribs ctx \<and>
   attrib_formats (snd (bind ctx (resetAttributes this))) = attrib_formats ctx"
  by (simp add: bind_def glGetIntegerv_CURRENT_PROGRAM_def sint_eq_0_iff32
      resetAttributes_def glBindBuffer_def)

theorem resetAttributes_then_bind_witness:
  "current_program example_context \<noteq> 0 \<and>
   attributes example_buffer = [position_attribute, normal_attribute] \<and>
   attributes (resetAttributes example_buffer) = [] \<and>
   fst (bind example_context (resetAttributes example_buffer)) = None \<and>
   enabled_attribs (snd (bind example_context (resetAttributes example_buffer))) = {}"
proof -
  have p: "current_program example_context \<noteq> 0"
    by (simp add: example_context_def)
  have a: "attributes example_buffer = [position_attribute, normal_attribute]"
    by (simp add: example_buffer_def)
  have e: "enabled_attribs example_context = {}"
    by (simp add: example_context_def)
  from resetAttributes_then_bind [OF p, of example_buffer] p a e show ?thesis by simp
qed

section \<open>Ownership of the handle\<close>

lemma names_dtor:
  "set (buffer_names (VertexBufferImpl_dtor m ctx)) =
     (if handle m = 0 then set (buffer_names ctx) else set (buffer_names ctx) - {handle m})"
  by (auto simp add: VertexBufferImpl_dtor_def glDeleteBuffers_def)

text \<open>
  What \<^verbatim>\<open>setVertexData\<close> does to the handle and to the names in use: nothing (it threw),
  or the handle is the new name and the old one is released.
\<close>

lemma setVertexData_handles:
  assumes "fresh_name ctx" "setVertexData targs d ctx m = (r, ctx', m')"
  shows "(handle m' = handle m \<and> set (buffer_names ctx') = set (buffer_names ctx)) \<or>
         (handle m' = gen_name ctx (buffer_names ctx) \<and>
          set (buffer_names ctx') =
            insert (handle m')
              (if handle m = 0 then set (buffer_names ctx)
               else set (buffer_names ctx) - {handle m}))"
  using assms
  by (auto simp add: setVertexData_def rebuffer_cases Let_def fresh_name_def
      names_glBufferData glDeleteBuffers_def glBindBuffer_def split: if_splits)

lemma inv_alt:
  "ownership_invariant ctx ms =
    (distinct (filter (\<lambda>h. h \<noteq> 0) (map handle ms)) \<and> 0 \<notin> set (buffer_names ctx) \<and>
     (\<forall>m \<in> set ms. handle m \<noteq> 0 \<longrightarrow> handle m \<in> set (buffer_names ctx)))"
  by (auto simp: ownership_invariant_def sole_owners_def handles_allocated_def list_all_iff)

lemma inv_handles:
  "ownership_invariant ctx ms =
    (distinct (filter (\<lambda>h. h \<noteq> 0) (map handle ms)) \<and> 0 \<notin> set (buffer_names ctx) \<and>
     (\<forall>h \<in> set (map handle ms). h \<noteq> 0 \<longrightarrow> h \<in> set (buffer_names ctx)))"
  by (auto simp: inv_alt)

lemma inv_others:
  "ownership_invariant ctx (ms1 @ m # ms2) \<Longrightarrow> k \<in> set ms1 \<union> set ms2 \<Longrightarrow>
   handle k \<noteq> 0 \<Longrightarrow> handle k \<in> set (buffer_names ctx) \<and> handle k \<noteq> handle m"
  by (fastforce simp: inv_alt image_iff)

lemma distinct_replace:
  "distinct (filter P (A @ h # B)) \<Longrightarrow> h' \<notin> set A \<union> set B \<Longrightarrow>
   distinct (filter P (A @ h' # B))"
  by (auto split: if_splits)

lemma distinct_remove:
  "distinct (filter P (A @ h # B)) \<Longrightarrow> distinct (filter P (A @ B))"
  by (auto split: if_splits)

text \<open>The move constructor keeps sole ownership, whatever the context.\<close>

lemma sole_owners_move:
  assumes "sole_owners (ms1 @ rhs # ms2)"
  shows "sole_owners (ms1 @ snd (VertexBufferImpl_move_ctor rhs) # ms2 @
           [fst (VertexBufferImpl_move_ctor rhs)])"
  using assms by (auto simp: sole_owners_def VertexBufferImpl_move_ctor_def)

text \<open>
  Every reachable state satisfies the ownership invariant: rule induction over the
  steps of a program.
\<close>

lemma reachable_invariant: "reachable ctx ms \<Longrightarrow> ownership_invariant ctx ms"
proof (induction rule: reachable.induct)
  case (initial ctx)
  then show ?case by (simp add: inv_alt)
next
  case (construct ctx ms targs d m ctx')
  from construct.hyps(3) have h: "handle m = gen_name ctx (buffer_names ctx)"
    by (rule ctor_handle)
  from construct.hyps(3)
  have n: "buffer_names ctx' = gen_name ctx (buffer_names ctx) # buffer_names ctx"
    using ctor_names [of targs d ctx] by simp
  from construct.IH construct.hyps(2) show ?case
    by (auto simp: inv_alt h n fresh_name_def)
next
  case (construct_failed ctx ms targs d e ctx')
  from construct_failed.hyps(3)
  have n: "buffer_names ctx' = gen_name ctx (buffer_names ctx) # buffer_names ctx"
    using ctor_names [of targs d ctx] by simp
  from construct_failed.IH construct_failed.hyps(2) show ?case
    by (auto simp: inv_alt n fresh_name_def)
next
  case (move_construct ctx ms1 rhs ms2 new rhs')
  from move_construct.hyps(2) have "handle new = handle rhs" "handle rhs' = 0"
    by (auto simp: VertexBufferImpl_move_ctor_def)
  with move_construct.IH show ?case by (auto simp: inv_alt)
next
  case (set_vertex_data ctx ms1 m ms2 targs d r ctx' m')
  have d: "distinct (filter (\<lambda>h. h \<noteq> 0) (map handle (ms1 @ m # ms2)))"
    and z: "0 \<notin> set (buffer_names ctx)"
    and al: "\<forall>k \<in> set (ms1 @ m # ms2). handle k \<noteq> 0 \<longrightarrow> handle k \<in> set (buffer_names ctx)"
    using set_vertex_data.IH by (simp_all add: inv_alt)
  note others = inv_others [OF set_vertex_data.IH]
  show ?case
  proof (cases "handle m' = handle m \<and> set (buffer_names ctx') = set (buffer_names ctx)")
    case True
    with d z al show ?thesis by (simp add: inv_alt)
  next
    case False
    with setVertexData_handles [OF set_vertex_data.hyps(2,3)]
    have h: "handle m' = gen_name ctx (buffer_names ctx)"
      and n: "set (buffer_names ctx') =
                insert (handle m')
                  (if handle m = 0 then set (buffer_names ctx)
                   else set (buffer_names ctx) - {handle m})"
      by blast+
    from set_vertex_data.hyps(2) h
    have fr: "handle m' \<noteq> 0" "handle m' \<notin> set (buffer_names ctx)"
      by (simp_all add: fresh_name_def)
    have notin: "handle m' \<notin> handle ` (set ms1 \<union> set ms2)"
    proof
      assume "handle m' \<in> handle ` (set ms1 \<union> set ms2)"
      then obtain k where k: "handle m' = handle k" "k \<in> set ms1 \<union> set ms2"
        by (rule imageE)
      from fr(1) k(1) have "handle k \<noteq> 0" by simp
      from others [OF k(2) this] have "handle k \<in> set (buffer_names ctx)" by simp
      with k(1) fr(2) show False by simp
    qed
    from d notin
    have d': "distinct (filter (\<lambda>h. h \<noteq> 0) (map handle (ms1 @ m' # ms2)))"
      using distinct_replace
              [of "\<lambda>h. h \<noteq> 0" "map handle ms1" "handle m" "map handle ms2" "handle m'"]
      by (simp add: image_Un)
    from z fr n have z': "0 \<notin> set (buffer_names ctx')"
      by (auto split: if_splits)
    have al': "\<forall>k \<in> set (ms1 @ m' # ms2).
                 handle k \<noteq> 0 \<longrightarrow> handle k \<in> set (buffer_names ctx')"
      using others n by (auto split: if_splits)
    from d' z' al' show ?thesis by (simp add: inv_alt)
  qed
next
  case (destroy ctx ms1 m ms2)
  have d: "distinct (filter (\<lambda>h. h \<noteq> 0) (map handle (ms1 @ m # ms2)))"
    and z: "0 \<notin> set (buffer_names ctx)"
    using destroy.IH by (simp_all add: inv_alt)
  from d have d': "distinct (filter (\<lambda>h. h \<noteq> 0) (map handle (ms1 @ ms2)))"
    using distinct_remove [of "\<lambda>h. h \<noteq> 0" "map handle ms1" "handle m" "map handle ms2"]
    by simp
  from z have z': "0 \<notin> set (buffer_names (VertexBufferImpl_dtor m ctx))"
    by (simp add: names_dtor)
  have al': "\<forall>k \<in> set (ms1 @ ms2). handle k \<noteq> 0 \<longrightarrow>
               handle k \<in> set (buffer_names (VertexBufferImpl_dtor m ctx))"
    using inv_others [OF destroy.IH] by (simp add: names_dtor)
  from d' z' al' show ?case by (simp add: inv_alt)
next
  case (other ctx ms ctx' ms')
  from other.IH other.hyps(2,3) show ?case by (simp add: inv_handles)
qed

text \<open>
  The other operations of the class that are modelled here are steps of the last rule:
  \<^verbatim>\<open>bind\<close> leaves the buffer names, the attribute registrations and \<^verbatim>\<open>resetAttributes\<close>
  leave the handle.
\<close>

lemma names_bind_one:
  "buffer_names (snd (AttributePointerBase_bind a p ctx)) = buffer_names ctx"
  by (cases a)
     (simp_all add: AttributePointerBase_bind_def dynamic_assert_def glVertexAttribFormat_def
       glEnableVertexAttribArray_def split: sum.splits)

lemma names_bind_attributes:
  "buffer_names (snd (bind_attributes ptrs p ctx)) = buffer_names ctx"
proof (induction ptrs arbitrary: ctx)
  case Nil
  show ?case by simp
next
  case (Cons a ptrs)
  obtain r c where b: "AttributePointerBase_bind a p ctx = (r, c)"
    by (cases "AttributePointerBase_bind a p ctx")
  with names_bind_one [of a p ctx] have n: "buffer_names c = buffer_names ctx" by simp
  show ?case
  proof (cases r)
    case None
    with b n Cons.IH [of c] show ?thesis by simp
  next
    case (Some e)
    with b n show ?thesis by simp
  qed
qed

lemma names_bind: "buffer_names (snd (bind ctx this)) = buffer_names ctx"
  by (simp add: bind_def Let_def names_bind_attributes glBindBuffer_def)

lemma handle_push_back: "handle (snd (push_back r this)) = handle this"
  by (simp add: push_back_def split: sum.splits)

lemma reachable_other_steps:
  assumes "reachable ctx (ms1 @ m # ms2)"
  shows "reachable (snd (bind ctx m)) (ms1 @ m # ms2)"
    and "reachable ctx (ms1 @ snd (addAttributePointer name size' type' normalized stride offset m) # ms2)"
    and "reachable ctx (ms1 @ snd (addAttributeIPointer name size' type' stride offset m) # ms2)"
    and "reachable ctx (ms1 @ snd (addAttributeLPointer name size' stride offset m) # ms2)"
    and "reachable ctx (ms1 @ resetAttributes m # ms2)"
proof -
  show "reachable (snd (bind ctx m)) (ms1 @ m # ms2)"
    by (rule reachable.other [OF assms]) (simp_all add: names_bind)
  show "reachable ctx (ms1 @ snd (addAttributePointer name size' type' normalized stride offset m) # ms2)"
    by (rule reachable.other [OF assms]) (simp_all add: addAttributePointer_def handle_push_back)
  show "reachable ctx (ms1 @ snd (addAttributeIPointer name size' type' stride offset m) # ms2)"
    by (rule reachable.other [OF assms]) (simp_all add: addAttributeIPointer_def handle_push_back)
  show "reachable ctx (ms1 @ snd (addAttributeLPointer name size' stride offset m) # ms2)"
    by (rule reachable.other [OF assms]) (simp_all add: addAttributeLPointer_def handle_push_back)
  show "reachable ctx (ms1 @ resetAttributes m # ms2)"
    by (rule reachable.other [OF assms]) (simp_all add: resetAttributes_def)
qed

text \<open>
  C10. The move constructor gives the new object the handle, the data and the
  attribute list of the moved-from object and sets the handle of the moved-from object
  to 0; the destructor of the moved-from object then leaves the context as it is, so
  the transferred buffer stays in use. Among the managers of a program, the move keeps
  every handle other than 0 with one manager only; and in every state that a program
  reaches by constructions, move constructions, calls of \<^verbatim>\<open>setVertexData\<close> and
  destructions (with fresh names from \<^verbatim>\<open>glGenBuffers\<close>), no two live managers hold the
  same handle other than 0, and a handle that is held is a buffer in use.
\<close>

theorem move_ctor_transfers_ownership:
  "handle (fst (VertexBufferImpl_move_ctor rhs)) = handle rhs \<and>
   data (fst (VertexBufferImpl_move_ctor rhs)) = data rhs \<and>
   attributes (fst (VertexBufferImpl_move_ctor rhs)) = attributes rhs \<and>
   handle (snd (VertexBufferImpl_move_ctor rhs)) = 0 \<and>
   VertexBufferImpl_dtor (snd (VertexBufferImpl_move_ctor rhs)) ctx = ctx \<and>
   (sole_owners (ms1 @ rhs # ms2) \<longrightarrow>
      sole_owners (ms1 @ snd (VertexBufferImpl_move_ctor rhs) # ms2 @
        [fst (VertexBufferImpl_move_ctor rhs)])) \<and>
   (reachable ctx' ms \<longrightarrow> sole_owners ms \<and> handles_allocated ctx' ms)"
proof (intro conjI impI)
  assume "sole_owners (ms1 @ rhs # ms2)"
  then show "sole_owners (ms1 @ snd (VertexBufferImpl_move_ctor rhs) # ms2 @
        [fst (VertexBufferImpl_move_ctor rhs)])"
    by (rule sole_owners_move)
next
  assume "reachable ctx' ms"
  then have "ownership_invariant ctx' ms" by (rule reachable_invariant)
  then show "sole_owners ms" and "handles_allocated ctx' ms"
    by (simp_all add: ownership_invariant_def)
qed (simp_all add: VertexBufferImpl_move_ctor_def VertexBufferImpl_dtor_def glDeleteBuffers_def)

theorem move_ctor_transfers_ownership_witness:
  "fst (VertexBufferImpl_ctor example_args [7, 8 :: nat] example_context) =
     Inr \<lparr>handle = 7, data = [7, 8], attributes = []\<rparr> \<and>
   reachable (snd (VertexBufferImpl_ctor example_args [7, 8 :: nat] example_context))
     [\<lparr>handle = 0, data = [], attributes = []\<rparr>,
      \<lparr>handle = 7, data = [7, 8 :: nat], attributes = []\<rparr>] \<and>
   sole_owners
     [\<lparr>handle = 0, data = [], attributes = []\<rparr>,
      \<lparr>handle = 7, data = [7, 8 :: nat], attributes = []\<rparr>] \<and>
   7 \<in> set (buffer_names
     (VertexBufferImpl_dtor \<lparr>handle = 0, data = [] :: nat list, attributes = []\<rparr>
        (snd (VertexBufferImpl_ctor example_args [7, 8 :: nat] example_context))))"
proof -
  let ?m = "\<lparr>handle = 7, data = [7, 8 :: nat], attributes = []\<rparr>"
  let ?z = "\<lparr>handle = 0, data = [] :: nat list, attributes = []\<rparr>"
  let ?c = "snd (VertexBufferImpl_ctor example_args [7, 8 :: nat] example_context)"
  have f: "fresh_name example_context"
    by (simp add: fresh_name_def example_context_def)
  have c: "fst (VertexBufferImpl_ctor example_args [7, 8 :: nat] example_context) = Inr ?m"
    by (simp add: ctor_cases Let_def glBufferData_def record_error_def)
       (simp add: example_context_def example_args_def GL_NO_ERROR_def GL_OUT_OF_MEMORY_def)
  then have c': "VertexBufferImpl_ctor example_args [7, 8 :: nat] example_context = (Inr ?m, ?c)"
    by (simp add: prod_eq_iff)
  have r0: "reachable example_context ([] :: nat VertexBufferImpl list)"
    by (rule reachable.initial) (simp add: example_context_def)
  from reachable.construct [OF r0 f c'] have r1: "reachable ?c ([] @ ?m # [])"
    by simp
  have mv: "VertexBufferImpl_move_ctor ?m = (?m, ?z)"
    by (simp add: VertexBufferImpl_move_ctor_def)
  from reachable.move_construct [OF r1 mv] have r2: "reachable ?c [?z, ?m]"
    by simp
  have n: "buffer_names ?c = [7, 1, 5]"
    by (simp add: ctor_names) (simp add: example_context_def)
  from move_ctor_transfers_ownership [of ?m ?c "[]" "[]" ?c "[?z, ?m]"] r2 mv
  have s: "sole_owners [?z, ?m]"
    and d: "VertexBufferImpl_dtor ?z ?c = ?c"
    by simp_all
  from d n have k: "7 \<in> set (buffer_names (VertexBufferImpl_dtor ?z ?c))"
    by (simp only: list.set insert_iff simp_thms)
  from c r2 s k show ?thesis by (intro conjI)
qed

end
